theory Spec2Isabelle
  imports Main "HOL-Library.AList"
begin

unbundle bit_operations_syntax

section \<open>The Python binding \<^verbatim>\<open>pylibjtag/jtagcore.py\<close>\<close>

text \<open>
  \<^verbatim>\<open>JTAGCore\<close> is a thin class around the native JTAG library: every method marshals its
  arguments, calls one or more exported functions of the library through \<^verbatim>\<open>self.lib\<close> with
  the handle \<^verbatim>\<open>self._jtag\<close>, and passes the integer the call returns to
  \<^verbatim>\<open>_check_return\<close>. The native library is not part of the Python file. It is a parameter of
  the model: a function from a call and the native state behind the handle to a reply and the
  new native state.
\<close>

subsection \<open>Python values\<close>

text \<open>
  The arguments whose Python type the methods inspect or compare (\<^verbatim>\<open>state\<close>, \<^verbatim>\<open>mode\<close>,
  \<^verbatim>\<open>pintype\<close>) are dynamically typed. The values covered are \<^verbatim>\<open>None\<close>, booleans, integers and
  strings; a string is the list of its UTF-8 bytes.
\<close>

datatype pyval = PNone | PBool bool | PInt int | PStr string

text \<open>Python's \<^verbatim>\<open>==\<close>: a boolean is the integer 0 or 1, values of unrelated types differ.\<close>

fun py_eq :: "pyval \<Rightarrow> pyval \<Rightarrow> bool" where
  "py_eq PNone PNone = True"
| "py_eq (PBool a) (PBool b) = (a = b)"
| "py_eq (PBool a) (PInt j) = ((if a then 1 else 0) = j)"
| "py_eq (PInt i) (PBool b) = (i = (if b then 1 else 0))"
| "py_eq (PInt i) (PInt j) = (i = j)"
| "py_eq (PStr s) (PStr t) = (s = t)"
| "py_eq _ _ = False"

text \<open>A pin is named by a \<^verbatim>\<open>str\<close> or numbered by an \<^verbatim>\<open>int\<close> (\<^verbatim>\<open>isinstance(pinid, str)\<close>).\<close>

datatype pinref = PinName string | PinNum int

text \<open>A pin name handed to \<^verbatim>\<open>pin_get_id\<close> is a \<^verbatim>\<open>str\<close> or a \<^verbatim>\<open>bytes\<close> object.\<close>

datatype pystring = Str string | Bytes string

text \<open>\<^verbatim>\<open>pinname.encode("utf-8")\<close>: the bytes of a string, which are its representation here.\<close>

definition encode_utf8 :: "string \<Rightarrow> string" where
  "encode_utf8 s = s"

subsection \<open>Exceptions\<close>

text \<open>
  The exceptions the methods raise, with their arguments: \<^verbatim>\<open>IOError(msg)\<close> and
  \<^verbatim>\<open>IOError(msg, path)\<close>, \<^verbatim>\<open>ValueError(msg)\<close> and \<^verbatim>\<open>ValueError(msg, value)\<close>, and the
  \<^verbatim>\<open>KeyError\<close> of a dictionary lookup with a missing key.
\<close>

datatype error = IOError "string list" | ValueError string "pyval option" | KeyError int

subsection \<open>The native library as a parameter\<close>

text \<open>The exported functions the binding calls, with the arguments after the handle.\<close>

datatype call =
    Jtagcore_set_logs_level int
  | Jtagcore_deinit
  | Jtagcore_get_number_of_probes_drv
  | Jtagcore_get_number_of_probes int
  | Jtagcore_get_probe_name int
  | Jtagcore_select_and_open_probe int
  | Jtagcore_scan_and_init_chain
  | Jtagcore_get_number_of_devices
  | Jtagcore_get_dev_id int
  | Jtagcore_loadbsdlfile string int
  | Jtagcore_get_bsdl_id string
  | Jtagcore_get_number_of_pins int
  | Jtagcore_get_pin_id int string
  | Jtagcore_get_pin_state int int int
  | Jtagcore_get_pin_properties int int int
  | Jtagcore_set_pin_state int int int int
  | Jtagcore_set_scan_mode int pyval
  | Jtagcore_push_and_pop_chain int

text \<open>
  What a call leaves behind: the integer it returns, the bytes that \<^verbatim>\<open>.value\<close> reads from the
  character buffer passed to it (empty when the call takes none or writes nothing), and the
  integer left in the \<^verbatim>\<open>c_int\<close> passed by reference (\<^verbatim>\<open>pt\<close>, initially 0).
\<close>

record reply =
  ret :: int
  buf_value :: string
  pt_value :: int

type_synonym 'n lib = "call \<Rightarrow> 'n \<Rightarrow> reply \<times> 'n"

text \<open>A reply that carries a return value only.\<close>

definition returning :: "int \<Rightarrow> reply" where
  "returning rv = \<lparr>ret = rv, buf_value = [], pt_value = 0\<rparr>"

text \<open>
  The object: the loaded library, the native state behind the handle, and a log of the calls
  made through the handle with their replies. The log is not in the Python object; it records
  the calls so that theorems can speak about which calls were issued and in which order.
\<close>

record 'n JTAGCore =
  lib :: "'n lib"
  jtag :: 'n
  trace :: "(call \<times> reply) list"

text \<open>\<^verbatim>\<open>self.lib.f(self._jtag, ...)\<close>: one call of the library.\<close>

definition invoke :: "call \<Rightarrow> 'n JTAGCore \<Rightarrow> reply \<times> 'n JTAGCore" where
  "invoke c self =
     (let (r, n) = lib self c (jtag self)
      in (r, self\<lparr>jtag := n, trace := trace self @ [(c, r)]\<rparr>))"

subsection \<open>Return codes\<close>

definition error_codes :: "(int \<times> string) list" where
  "error_codes =
     [(0, ''JTAG_CORE_NO_ERROR''),
      (-1, ''JTAG_CORE_BAD_PARAMETER''),
      (-2, ''JTAG_CORE_ACCESS_ERROR''),
      (-3, ''JTAG_CORE_IO_ERROR''),
      (-4, ''JTAG_CORE_MEM_ERROR''),
      (-5, ''JTAG_CORE_NO_PROBE''),
      (-6, ''JTAG_CORE_NOT_FOUND''),
      (-7, ''JTAG_CORE_CMD_NOT_FOUND''),
      (-8, ''JTAG_CORE_INTERNAL_ERROR''),
      (-9, ''JTAG_CORE_BAD_CMD''),
      (-10, ''JTAG_CORE_I2C_BUS_NOTFREE'')]"

definition INPUT :: int where "INPUT = 1"
definition OUTPUT :: int where "OUTPUT = 2"
definition TRISTATE :: int where "TRISTATE = 4"
definition OE :: int where "OE = 4"

text \<open>
  \<^verbatim>\<open>_check_return\<close>: nothing happens for a value that is not negative; a negative value raises
  \<^verbatim>\<open>IOError("Exception: %s" % self.error_codes[rv])\<close>, and the lookup itself raises
  \<^verbatim>\<open>KeyError(rv)\<close> when the dictionary has no entry for the value.
\<close>

definition check_return :: "int \<Rightarrow> error + unit" where
  "check_return rv =
     (if rv \<ge> 0 then Inr ()
      else if rv < 0 then
        (case map_of error_codes rv of
           None \<Rightarrow> Inl (KeyError rv)
         | Some name \<Rightarrow> Inl (IOError [''Exception: '' @ name]))
      else Inr ())"

subsection \<open>Sequencing\<close>

text \<open>
  A method returns a value or raises, and leaves the object in a new state either way.
  \<open>and_then\<close> runs the rest of a method after a step that did not raise.
\<close>

type_synonym ('a, 'n) outcome = "(error + 'a) \<times> 'n JTAGCore"

definition and_then ::
  "('a, 'n) outcome \<Rightarrow> ('a \<Rightarrow> 'n JTAGCore \<Rightarrow> ('b, 'n) outcome) \<Rightarrow> ('b, 'n) outcome" where
  "and_then m f = (case m of (Inl e, self) \<Rightarrow> (Inl e, self) | (Inr x, self) \<Rightarrow> f x self)"

text \<open>
  The two lines \<^verbatim>\<open>rv = self.lib.f(self._jtag, ...)\<close>, \<^verbatim>\<open>self._check_return(rv)\<close>, with \<^verbatim>\<open>rv\<close>
  as the value.
\<close>

definition checked :: "call \<Rightarrow> 'n JTAGCore \<Rightarrow> (int, 'n) outcome" where
  "checked c self =
     (let (r, self') = invoke c self
      in (case check_return (ret r) of Inl e \<Rightarrow> (Inl e, self') | Inr _ \<Rightarrow> (Inr (ret r), self')))"

subsection \<open>The methods\<close>

definition set_debug_level :: "'n JTAGCore \<Rightarrow> int \<Rightarrow> (unit, 'n) outcome" where
  "set_debug_level self level =
     (let (r, self') = invoke (Jtagcore_set_logs_level level) self in (Inr (), self'))"

definition deinit :: "'n JTAGCore \<Rightarrow> (unit, 'n) outcome" where
  "deinit self = (let (r, self') = invoke Jtagcore_deinit self in (Inr (), self'))"

text \<open>
  \<^verbatim>\<open>get_probe_names\<close>: the inner loop over \<^verbatim>\<open>range(0, probe_indexes)\<close>. The value returned by
  \<^verbatim>\<open>jtagcore_get_probe_name\<close> is not looked at. The dictionary \<^verbatim>\<open>probes\<close> is an association
  list; \<^verbatim>\<open>probes[name] = probeid\<close> replaces the value of a key that is present and appends a
  new key otherwise.
\<close>

fun probe_index_loop ::
  "int \<Rightarrow> int list \<Rightarrow> (string \<times> int) list \<Rightarrow> 'n JTAGCore \<Rightarrow> (string \<times> int) list \<times> 'n JTAGCore" where
  "probe_index_loop probe_driver_id [] probes self = (probes, self)"
| "probe_index_loop probe_driver_id (probe_index # rest) probes self =
     (let probeid = (push_bit 8 probe_driver_id) OR probe_index;
          (r, self') = invoke (Jtagcore_get_probe_name probeid) self
      in probe_index_loop probe_driver_id rest (AList.update (buf_value r) probeid probes) self')"

text \<open>The outer loop over \<^verbatim>\<open>range(0, probe_driver_ids)\<close>.\<close>

fun probe_driver_loop ::
  "int list \<Rightarrow> (string \<times> int) list \<Rightarrow> 'n JTAGCore \<Rightarrow> ((string \<times> int) list, 'n) outcome" where
  "probe_driver_loop [] probes self = (Inr probes, self)"
| "probe_driver_loop (probe_driver_id # rest) probes self =
     and_then (checked (Jtagcore_get_number_of_probes probe_driver_id) self)
       (\<lambda>probe_indexes self.
          (let (probes', self') =
                 probe_index_loop probe_driver_id [0..probe_indexes - 1] probes self
           in probe_driver_loop rest probes' self'))"

definition get_probe_names :: "'n JTAGCore \<Rightarrow> ((string \<times> int) list, 'n) outcome" where
  "get_probe_names self =
     and_then (checked Jtagcore_get_number_of_probes_drv self)
       (\<lambda>probe_driver_ids self. probe_driver_loop [0..probe_driver_ids - 1] [] self)"

definition open_probe :: "'n JTAGCore \<Rightarrow> int \<Rightarrow> (unit, 'n) outcome" where
  "open_probe self probeid =
     and_then (checked (Jtagcore_select_and_open_probe probeid) self) (\<lambda>rv self. (Inr (), self))"

definition scan_init_chain :: "'n JTAGCore \<Rightarrow> (int, 'n) outcome" where
  "scan_init_chain self = checked Jtagcore_scan_and_init_chain self"

definition get_number_devices :: "'n JTAGCore \<Rightarrow> (int, 'n) outcome" where
  "get_number_devices self = checked Jtagcore_get_number_of_devices self"

definition get_devid :: "'n JTAGCore \<Rightarrow> int \<Rightarrow> (int, 'n) outcome" where
  "get_devid self device_number = checked (Jtagcore_get_dev_id device_number) self"

text \<open>
  \<^verbatim>\<open>bsdl_attach\<close> and \<^verbatim>\<open>bsdl_devid\<close> ask the file system first: \<open>path_exists\<close> is
  \<^verbatim>\<open>os.path.exists\<close>, a parameter. The path reaches the library as bytes whichever branch of
  the \<^verbatim>\<open>try\<close> builds the \<^verbatim>\<open>c_char_p\<close>.
\<close>

definition bsdl_attach ::
  "(string \<Rightarrow> bool) \<Rightarrow> 'n JTAGCore \<Rightarrow> string \<Rightarrow> int \<Rightarrow> (unit, 'n) outcome" where
  "bsdl_attach path_exists self filepath device_number =
     (if \<not> path_exists filepath then (Inl (IOError [''Check path: '' @ filepath, filepath]), self)
      else
        (let cpath = encode_utf8 filepath
         in and_then (checked (Jtagcore_loadbsdlfile cpath device_number) self)
              (\<lambda>rv self. (Inr (), self))))"

definition bsdl_devid :: "(string \<Rightarrow> bool) \<Rightarrow> 'n JTAGCore \<Rightarrow> string \<Rightarrow> (int, 'n) outcome" where
  "bsdl_devid path_exists self filepath =
     (if \<not> path_exists filepath then (Inl (IOError [''Check path: '' @ filepath, filepath]), self)
      else
        (let cpath = encode_utf8 filepath
         in checked (Jtagcore_get_bsdl_id cpath) self))"

definition pins_get_number :: "'n JTAGCore \<Rightarrow> int \<Rightarrow> (int, 'n) outcome" where
  "pins_get_number self device_number = checked (Jtagcore_get_number_of_pins device_number) self"

definition pin_get_id :: "'n JTAGCore \<Rightarrow> int \<Rightarrow> pystring \<Rightarrow> (int, 'n) outcome" where
  "pin_get_id self device_number pinname =
     (let pinname = (case pinname of Str s \<Rightarrow> encode_utf8 s | Bytes b \<Rightarrow> b)
      in checked (Jtagcore_get_pin_id device_number pinname) self)"

definition pin_get_state :: "'n JTAGCore \<Rightarrow> int \<Rightarrow> pinref \<Rightarrow> pyval \<Rightarrow> (int, 'n) outcome" where
  "pin_get_state self device_number pinid pintype =
     and_then
       (case pinid of
          PinName name \<Rightarrow> pin_get_id self device_number (Str name)
        | PinNum n \<Rightarrow> (Inr n, self))
       (\<lambda>pinid self.
          and_then
            (if py_eq pintype (PStr ''input'') then (Inr INPUT, self)
             else if py_eq pintype (PStr ''output'') then (Inr OUTPUT, self)
             else if py_eq pintype (PStr ''oe'') then (Inr OE, self)
             else (Inl (ValueError ''Invalid pintype'' (Some pintype)), self))
            (\<lambda>pintype self. checked (Jtagcore_get_pin_state device_number pinid pintype) self))"

text \<open>
  \<^verbatim>\<open>pin_get_properties\<close>: the name read from the 500-byte buffer and the list of the
  capabilities whose bit is set in \<^verbatim>\<open>pt\<close>.
\<close>

definition pin_get_properties ::
  "'n JTAGCore \<Rightarrow> int \<Rightarrow> pinref \<Rightarrow> (string \<times> string list, 'n) outcome" where
  "pin_get_properties self device_number pinid =
     (case pinid of
        PinName name \<Rightarrow> (Inl (ValueError ''pinid must be integer for thiscall'' None), self)
      | PinNum n \<Rightarrow>
          (let (r, self') = invoke (Jtagcore_get_pin_properties device_number n 500) self
           in (case check_return (ret r) of
                 Inl e \<Rightarrow> (Inl e, self')
               | Inr _ \<Rightarrow>
                   (let pintype = [];
                        pintype = (if pt_value r AND INPUT \<noteq> 0 then pintype @ [''input''] else pintype);
                        pintype = (if pt_value r AND OUTPUT \<noteq> 0 then pintype @ [''output''] else pintype);
                        pintype = (if pt_value r AND OE \<noteq> 0 then pintype @ [''oe''] else pintype)
                    in (Inr (buf_value r, pintype), self')))))"

definition scan :: "'n JTAGCore \<Rightarrow> bool \<Rightarrow> (unit, 'n) outcome" where
  "scan self write_only =
     (let mode = (if write_only then 1 else 0)
      in and_then (checked (Jtagcore_push_and_pop_chain mode) self) (\<lambda>rv self. (Inr (), self)))"

definition pin_set_state ::
  "'n JTAGCore \<Rightarrow> int \<Rightarrow> pinref \<Rightarrow> pyval \<Rightarrow> bool \<Rightarrow> (unit, 'n) outcome" where
  "pin_set_state self device pinid state scan_now =
     and_then
       (case pinid of
          PinName name \<Rightarrow> pin_get_id self device (Str name)
        | PinNum n \<Rightarrow> (Inr n, self))
       (\<lambda>pinid self.
          and_then
            (if py_eq state (PBool True) \<or> py_eq state (PInt 1) \<or> py_eq state (PStr ''high'') then
               and_then (checked (Jtagcore_set_pin_state device pinid OE 1) self)
                 (\<lambda>rv self. checked (Jtagcore_set_pin_state device pinid OUTPUT 1) self)
             else if py_eq state (PBool False) \<or> py_eq state (PInt 0) \<or> py_eq state (PStr ''low'') then
               and_then (checked (Jtagcore_set_pin_state device pinid OE 1) self)
                 (\<lambda>rv self. checked (Jtagcore_set_pin_state device pinid OUTPUT 0) self)
             else if py_eq state PNone \<or> py_eq state (PInt (-1)) \<or> py_eq state (PStr ''high-z'') then
               and_then (checked (Jtagcore_set_pin_state device pinid OE 0) self)
                 (\<lambda>rv self. checked (Jtagcore_set_pin_state device pinid OUTPUT 0) self)
             else (Inl (ValueError ''Invalid state'' (Some state)), self))
            (\<lambda>rv self. if scan_now then scan self False else (Inr (), self)))"



subsection \<open>Observing a run\<close>

text \<open>The reply of a call made in a state, and the object after it.\<close>

definition reply_of :: "call \<Rightarrow> 'n JTAGCore \<Rightarrow> reply" where
  "reply_of c self = fst (lib self c (jtag self))"

definition after :: "call \<Rightarrow> 'n JTAGCore \<Rightarrow> 'n JTAGCore" where
  "after c self =
     self\<lparr>jtag := snd (lib self c (jtag self)), trace := trace self @ [(c, reply_of c self)]\<rparr>"

text \<open>The calls a method added to the log.\<close>

definition new_calls :: "'n JTAGCore \<Rightarrow> 'n JTAGCore \<Rightarrow> (call \<times> reply) list" where
  "new_calls self self' = drop (length (trace self)) (trace self')"

text \<open>The writes to the boundary-scan register image among the calls of a log.\<close>

fun is_register_write :: "call \<Rightarrow> bool" where
  "is_register_write (Jtagcore_set_pin_state device pinid pintype v) = True"
| "is_register_write _ = False"

definition register_writes :: "(call \<times> reply) list \<Rightarrow> call list" where
  "register_writes tr = filter is_register_write (map fst tr)"

text \<open>
  Of a log, in order: the probe identifiers passed to \<^verbatim>\<open>jtagcore_get_probe_name\<close>, each with the
  name the call left in the buffer; the driver indices passed to
  \<^verbatim>\<open>jtagcore_get_number_of_probes\<close>, each with the count returned; the counts returned by
  \<^verbatim>\<open>jtagcore_get_number_of_probes_drv\<close>.
\<close>

fun probe_entries :: "(call \<times> reply) list \<Rightarrow> (string \<times> int) list" where
  "probe_entries [] = []"
| "probe_entries ((Jtagcore_get_probe_name probeid, r) # tr) =
     (buf_value r, probeid) # probe_entries tr"
| "probe_entries (_ # tr) = probe_entries tr"

fun instance_counts :: "(call \<times> reply) list \<Rightarrow> (int \<times> int) list" where
  "instance_counts [] = []"
| "instance_counts ((Jtagcore_get_number_of_probes d, r) # tr) = (d, ret r) # instance_counts tr"
| "instance_counts (_ # tr) = instance_counts tr"

fun driver_counts :: "(call \<times> reply) list \<Rightarrow> int list" where
  "driver_counts [] = []"
| "driver_counts ((Jtagcore_get_number_of_probes_drv, r) # tr) = ret r # driver_counts tr"
| "driver_counts (_ # tr) = driver_counts tr"

section \<open>The engine behind the handle\<close>

text \<open>
  The native library that the binding loads is not in the Python file. Where a property rests
  on what the library itself does, the part of the engine it rests on is modelled from the design
  description: the probe session, the descriptor store and the register image.
\<close>

text \<open>
  Modelled from the spec: the pin descriptor of the descriptor store, absent from the Python
  file. A pin has a name and a capability set, a bit mask over input (1), output (2) and
  output-enable (4); its numeric pin id is its position in the descriptor of its device.
\<close>

record pin_descriptor =
  pin_name :: string
  capability :: int

text \<open>
  Modelled from the spec: the state of the chain session, absent from the Python file. It owns
  at most one open probe, the descriptor attached to each device (the pins in the order of
  their dense, zero-based pin ids) and the current boundary-scan register image, one bit for
  each device, pin and direction class.
\<close>

record engine =
  session :: "int option"
  descriptors :: "int \<Rightarrow> pin_descriptor list option"
  register_image :: "int \<times> int \<times> int \<Rightarrow> bool"

text \<open>
  Modelled from the spec: the lookup of a pin name in a descriptor, absent from the Python
  file. The design description does not say which pin is meant when several carry the name;
  the lookup takes the first.
\<close>

fun pin_index :: "string \<Rightarrow> pin_descriptor list \<Rightarrow> nat option" where
  "pin_index name [] = None"
| "pin_index name (p # ps) =
     (if pin_name p = name then Some 0 else map_option Suc (pin_index name ps))"

text \<open>
  Modelled from the spec: \<^verbatim>\<open>pinId(deviceNumber, name)\<close> of the descriptor store, absent from the
  Python file. It is the numeric id of the pin with the name, fails with NotFound (-6) when the
  name is unknown and with BadParameter (-1) when no descriptor is attached to the device.
\<close>

definition engine_get_pin_id :: "engine \<Rightarrow> int \<Rightarrow> string \<Rightarrow> reply" where
  "engine_get_pin_id e device_number name =
     (case descriptors e device_number of
        None \<Rightarrow> returning (-1)
      | Some pins \<Rightarrow>
          (case pin_index name pins of None \<Rightarrow> returning (-6) | Some i \<Rightarrow> returning (int i)))"

text \<open>
  Modelled from the spec: \<^verbatim>\<open>pinProperties(deviceNumber, pinId)\<close> of the descriptor store, absent
  from the Python file. It gives the name and the capability set of the pin with the id, and
  fails with BadParameter (-1) when no descriptor is attached or the id is out of range.
\<close>

definition engine_get_pin_properties :: "engine \<Rightarrow> int \<Rightarrow> int \<Rightarrow> reply" where
  "engine_get_pin_properties e device_number pinid =
     (case descriptors e device_number of
        None \<Rightarrow> returning (-1)
      | Some pins \<Rightarrow>
          (if 0 \<le> pinid \<and> pinid < int (length pins)
           then \<lparr>ret = 0, buf_value = pin_name (pins ! nat pinid),
                 pt_value = capability (pins ! nat pinid)\<rparr>
           else returning (-1)))"

text \<open>
  Modelled from the spec: the engine as a library, absent from the Python file. The two
  accessors of the descriptor store leave the engine as it is. A scan cycle
  (\<^verbatim>\<open>jtagcore_push_and_pop_chain\<close>) with no probe session open fails with NoProbe (-5) and
  leaves the engine, with its register image, as it is. The scan cycle of an open session and
  every other call are those of the parameter \<open>other\<close>.
\<close>

definition engine_lib :: "engine lib \<Rightarrow> engine lib" where
  "engine_lib other c e =
     (case c of
        Jtagcore_get_pin_id device_number name \<Rightarrow> (engine_get_pin_id e device_number name, e)
      | Jtagcore_get_pin_properties device_number pinid maxsize \<Rightarrow>
          (engine_get_pin_properties e device_number pinid, e)
      | Jtagcore_push_and_pop_chain mode \<Rightarrow>
          (if session e = None then (returning (-5), e) else other c e)
      | _ \<Rightarrow> other c e)"

section \<open>Libraries for concrete runs\<close>

text \<open>A library without state whose replies are given by a function of the call.\<close>

definition answering :: "(call \<Rightarrow> reply) \<Rightarrow> unit lib" where
  "answering f c n = (f c, n)"

text \<open>
  A library whose state is the list of the register writes it has accepted: it accepts the
  writes that \<open>accepts\<close> holds for, and rejects every other call with
  \<^verbatim>\<open>JTAG_CORE_BAD_PARAMETER\<close>, leaving its state as it was.
\<close>

definition register_file :: "(call \<Rightarrow> bool) \<Rightarrow> (call list) lib" where
  "register_file accepts c regs =
     (if is_register_write c \<and> accepts c then (returning 0, regs @ [c]) else (returning (-1), regs))"

text \<open>A library that rejects every call and leaves the state as it is.\<close>

definition rejecting :: "int \<Rightarrow> 'n lib" where
  "rejecting rv c n = (returning rv, n)"

text \<open>
  The replies of a probe registry: \<open>counts\<close> holds the number of probe instances of each
  driver, and \<open>names\<close> is the reply to \<^verbatim>\<open>jtagcore_get_probe_name\<close> for a probe identifier.
\<close>

fun probe_registry :: "int list \<Rightarrow> (int \<Rightarrow> reply) \<Rightarrow> call \<Rightarrow> reply" where
  "probe_registry counts names Jtagcore_get_number_of_probes_drv = returning (int (length counts))"
| "probe_registry counts names (Jtagcore_get_number_of_probes d) =
     (if 0 \<le> d \<and> d < int (length counts) then returning (counts ! nat d) else returning (-1))"
| "probe_registry counts names (Jtagcore_get_probe_name probeid) = names probeid"
| "probe_registry counts names _ = returning (-1)"

text \<open>A reply that leaves a name in the buffer.\<close>

definition named :: "string \<Rightarrow> reply" where
  "named s = \<lparr>ret = 0, buf_value = s, pt_value = 0\<rparr>"

section \<open>Basic facts\<close>

lemma and_then_Inl [simp]: "and_then (Inl e, self) f = (Inl e, self)"
  by (simp add: and_then_def)

lemma and_then_Inr [simp]: "and_then (Inr x, self) f = f x self"
  by (simp add: and_then_def)

lemma invoke_eq: "invoke c self = (reply_of c self, after c self)"
  by (simp add: invoke_def reply_of_def after_def split: prod.split)

lemma lib_after [simp]: "lib (after c self) = lib self"
  by (simp add: after_def)

lemma trace_after [simp]: "trace (after c self) = trace self @ [(c, reply_of c self)]"
  by (simp add: after_def)

lemma jtag_after: "jtag (after c self) = snd (lib self c (jtag self))"
  by (simp add: after_def)

lemma check_return_ok: "0 \<le> rv \<Longrightarrow> check_return rv = Inr ()"
  by (simp add: check_return_def)

lemma check_return_raises: "rv < 0 \<Longrightarrow> \<exists>e. check_return rv = Inl e"
  by (simp add: check_return_def split: option.split)


lemma checked_ok:
  "0 \<le> ret (reply_of c self) \<Longrightarrow> checked c self = (Inr (ret (reply_of c self)), after c self)"
  by (simp add: checked_def invoke_eq check_return_ok)

lemma checked_fails:
  "ret (reply_of c self) < 0 \<Longrightarrow>
   \<exists>e. check_return (ret (reply_of c self)) = Inl e \<and> checked c self = (Inl e, after c self)"
  using check_return_raises [of "ret (reply_of c self)"]
  by (auto simp add: checked_def invoke_eq)

lemma snd_checked [simp]: "snd (checked c self) = after c self"
  by (simp add: checked_def invoke_eq split: sum.split)


lemma new_calls_append [simp]: "trace self' = trace self @ xs \<Longrightarrow> new_calls self self' = xs"
  by (simp add: new_calls_def)

lemma scan_eq:
  "scan self write_only =
     (case checked (Jtagcore_push_and_pop_chain (if write_only then 1 else 0)) self of
        (Inl e, s) \<Rightarrow> (Inl e, s) | (Inr rv, s) \<Rightarrow> (Inr (), s))"
  by (simp add: scan_def and_then_def split: prod.split sum.split)


lemma check_return_values:
  "check_return 0 = Inr ()"
  "check_return (-1) = Inl (IOError [''Exception: JTAG_CORE_BAD_PARAMETER''])"
  "check_return (-3) = Inl (IOError [''Exception: JTAG_CORE_IO_ERROR''])"
  "check_return (-5) = Inl (IOError [''Exception: JTAG_CORE_NO_PROBE''])"
  "check_return (-6) = Inl (IOError [''Exception: JTAG_CORE_NOT_FOUND''])"
  "check_return (-11) = Inl (KeyError (-11))"
  by (simp_all add: check_return_def error_codes_def)


lemma pin_get_id_eq:
  "pin_get_id self device_number (Str name) = checked (Jtagcore_get_pin_id device_number name) self"
  "pin_get_id self device_number (Bytes name) = checked (Jtagcore_get_pin_id device_number name) self"
  by (simp_all add: pin_get_id_def encode_utf8_def)

section \<open>Descriptor files that do not exist\<close>

text \<open>
  Claim C8. When the path of the descriptor file does not exist, \<^verbatim>\<open>bsdl_attach\<close> and
  \<^verbatim>\<open>bsdl_devid\<close> raise \<^verbatim>\<open>IOError\<close>, and they do so before any call of the library: the object,
  with its log of calls, is as it was, so the descriptor parser of the library has not been
  invoked.
\<close>

theorem bsdl_missing_path_fails_before_parser:
  assumes "\<not> path_exists filepath"
  shows "bsdl_attach path_exists self filepath device_number =
           (Inl (IOError [''Check path: '' @ filepath, filepath]), self)
         \<and> bsdl_devid path_exists self filepath =
           (Inl (IOError [''Check path: '' @ filepath, filepath]), self)
         \<and> new_calls self (snd (bsdl_attach path_exists self filepath device_number)) = []
         \<and> new_calls self (snd (bsdl_devid path_exists self filepath)) = []"
  using assms by (simp add: bsdl_attach_def bsdl_devid_def new_calls_def)

theorem bsdl_missing_path_fails_before_parser_witness:
  "\<not> (\<lambda>p. p = ''bsdl_files/CortexMx.bsd'') ''nowhere.bsd''
   \<and> bsdl_attach (\<lambda>p. p = ''bsdl_files/CortexMx.bsd'')
        \<lparr>lib = answering (\<lambda>c. returning 0), jtag = (), trace = []\<rparr> ''nowhere.bsd'' 1
      = (Inl (IOError [''Check path: nowhere.bsd'', ''nowhere.bsd'']),
         \<lparr>lib = answering (\<lambda>c. returning 0), jtag = (), trace = []\<rparr>)
   \<and> bsdl_devid (\<lambda>p. p = ''bsdl_files/CortexMx.bsd'')
        \<lparr>lib = answering (\<lambda>c. returning 0), jtag = (), trace = []\<rparr> ''nowhere.bsd''
      = (Inl (IOError [''Check path: nowhere.bsd'', ''nowhere.bsd'']),
         \<lparr>lib = answering (\<lambda>c. returning 0), jtag = (), trace = []\<rparr>)"
  using bsdl_missing_path_fails_before_parser
      [of "\<lambda>p. p = ''bsdl_files/CortexMx.bsd''" "''nowhere.bsd''"
          "\<lparr>lib = answering (\<lambda>c. returning 0), jtag = (), trace = []\<rparr>" 1]
  by simp

section \<open>A scan cycle without a probe session\<close>

lemma reply_of_engine_scan:
  "lib self = engine_lib other \<Longrightarrow> session (jtag self) = None \<Longrightarrow>
   reply_of (Jtagcore_push_and_pop_chain m) self = returning (-5)
   \<and> jtag (after (Jtagcore_push_and_pop_chain m) self) = jtag self"
  by (simp add: reply_of_def after_def engine_lib_def)

text \<open>
  Claim C3. With the engine behind the handle and no probe session open, \<^verbatim>\<open>scan\<close> raises the
  error that names \<^verbatim>\<open>JTAG_CORE_NO_PROBE\<close>, and the engine is as it was before the call, its
  boundary-scan register image included.
\<close>

theorem scan_without_session_fails_no_probe:
  assumes "lib self = engine_lib other" and "session (jtag self) = None"
  shows "fst (scan self write_only) = Inl (IOError [''Exception: JTAG_CORE_NO_PROBE''])
         \<and> jtag (snd (scan self write_only)) = jtag self
         \<and> register_image (jtag (snd (scan self write_only))) = register_image (jtag self)"
proof -
  let ?c = "Jtagcore_push_and_pop_chain (if write_only then 1 else 0)"
  have r: "reply_of ?c self = returning (-5)" and j: "jtag (after ?c self) = jtag self"
    using reply_of_engine_scan [OF assms] by simp_all
  have "checked ?c self = (Inl (IOError [''Exception: JTAG_CORE_NO_PROBE'']), after ?c self)"
    by (simp add: checked_def invoke_eq r returning_def check_return_values)
  then show ?thesis using j by (simp add: scan_eq)
qed

theorem scan_without_session_fails_no_probe_witness:
  "session \<lparr>session = None, descriptors = (\<lambda>d. None), register_image = (\<lambda>k. k = (0, 3, 2))\<rparr> = None
   \<and> scan \<lparr>lib = engine_lib (rejecting (-3)),
         jtag = \<lparr>session = None, descriptors = (\<lambda>d. None),
                 register_image = (\<lambda>k. k = (0, 3, 2))\<rparr>,
         trace = []\<rparr> False
   = (Inl (IOError [''Exception: JTAG_CORE_NO_PROBE'']),
      \<lparr>lib = engine_lib (rejecting (-3)),
       jtag = \<lparr>session = None, descriptors = (\<lambda>d. None),
               register_image = (\<lambda>k. k = (0, 3, 2))\<rparr>,
       trace = [(Jtagcore_push_and_pop_chain 0, returning (-5))]\<rparr>)"
  using scan_without_session_fails_no_probe [of "\<lparr>lib = engine_lib (rejecting (-3)),
         jtag = \<lparr>session = None, descriptors = (\<lambda>d. None),
                 register_image = (\<lambda>k. k = (0, 3, 2))\<rparr>,
         trace = []\<rparr>" "rejecting (-3)" False]
  by (simp add: scan_eq checked_def invoke_def engine_lib_def returning_def check_return_values)

section \<open>Scan modes that are not recognised\<close>





section \<open>Reading a pin\<close>

lemma unrecognised_pintype:
  "pintype \<notin> {PStr ''input'', PStr ''output'', PStr ''oe''} \<Longrightarrow>
   \<not> py_eq pintype (PStr ''input'') \<and> \<not> py_eq pintype (PStr ''output'')
   \<and> \<not> py_eq pintype (PStr ''oe'')"
  by (cases pintype) auto

text \<open>
  Claim C6, as the code has it. \<^verbatim>\<open>pin_get_state\<close> resolves a pin given by name through
  \<^verbatim>\<open>pin_get_id\<close> before it looks at the direction. So for a direction that is none of
  \<^verbatim>\<open>input\<close>, \<^verbatim>\<open>output\<close> and \<^verbatim>\<open>oe\<close>: with a numeric pin id the method raises
  \<^verbatim>\<open>ValueError\<close>, the parameter error of the binding, and the object with its log of calls is
  as it was, so no library call was made; with a pin name the only library call is the lookup
  of the name, whose failure is raised in place of the \<^verbatim>\<open>ValueError\<close>. For a recognised
  direction the method reads the register image through one call of
  \<^verbatim>\<open>jtagcore_get_pin_state\<close> with the code of the direction (1, 2, 4), after the lookup when
  the pin is given by name.
\<close>

theorem pin_get_state_direction_check:
  "(pintype \<notin> {PStr ''input'', PStr ''output'', PStr ''oe''} \<longrightarrow>
      pin_get_state self device_number (PinNum n) pintype
        = (Inl (ValueError ''Invalid pintype'' (Some pintype)), self)
      \<and> pin_get_state self device_number (PinName name) pintype
        = and_then (pin_get_id self device_number (Str name))
            (\<lambda>pinid self. (Inl (ValueError ''Invalid pintype'' (Some pintype)), self)))
   \<and> pin_get_state self device_number (PinNum n) (PStr ''input'')
        = checked (Jtagcore_get_pin_state device_number n 1) self
   \<and> pin_get_state self device_number (PinNum n) (PStr ''output'')
        = checked (Jtagcore_get_pin_state device_number n 2) self
   \<and> pin_get_state self device_number (PinNum n) (PStr ''oe'')
        = checked (Jtagcore_get_pin_state device_number n 4) self
   \<and> pin_get_state self device_number (PinName name) (PStr ''input'')
        = and_then (pin_get_id self device_number (Str name))
            (\<lambda>pinid self. checked (Jtagcore_get_pin_state device_number pinid 1) self)
   \<and> pin_get_state self device_number (PinName name) (PStr ''output'')
        = and_then (pin_get_id self device_number (Str name))
            (\<lambda>pinid self. checked (Jtagcore_get_pin_state device_number pinid 2) self)
   \<and> pin_get_state self device_number (PinName name) (PStr ''oe'')
        = and_then (pin_get_id self device_number (Str name))
            (\<lambda>pinid self. checked (Jtagcore_get_pin_state device_number pinid 4) self)"
proof -
  have a: "pintype \<notin> {PStr ''input'', PStr ''output'', PStr ''oe''} \<longrightarrow>
      pin_get_state self device_number (PinNum n) pintype
        = (Inl (ValueError ''Invalid pintype'' (Some pintype)), self)
      \<and> pin_get_state self device_number (PinName name) pintype
        = and_then (pin_get_id self device_number (Str name))
            (\<lambda>pinid self. (Inl (ValueError ''Invalid pintype'' (Some pintype)), self))"
    using unrecognised_pintype [of pintype] by (simp add: pin_get_state_def)
  have b: "pin_get_state self device_number (PinNum n) (PStr ''input'')
        = checked (Jtagcore_get_pin_state device_number n 1) self"
    by (simp add: pin_get_state_def INPUT_def)
  have c: "pin_get_state self device_number (PinNum n) (PStr ''output'')
        = checked (Jtagcore_get_pin_state device_number n 2) self"
    by (simp add: pin_get_state_def OUTPUT_def)
  have d: "pin_get_state self device_number (PinNum n) (PStr ''oe'')
        = checked (Jtagcore_get_pin_state device_number n 4) self"
    by (simp add: pin_get_state_def OE_def)
  have e: "pin_get_state self device_number (PinName name) (PStr ''input'')
        = and_then (pin_get_id self device_number (Str name))
            (\<lambda>pinid self. checked (Jtagcore_get_pin_state device_number pinid 1) self)"
    by (simp add: pin_get_state_def INPUT_def)
  have f: "pin_get_state self device_number (PinName name) (PStr ''output'')
        = and_then (pin_get_id self device_number (Str name))
            (\<lambda>pinid self. checked (Jtagcore_get_pin_state device_number pinid 2) self)"
    by (simp add: pin_get_state_def OUTPUT_def)
  have g: "pin_get_state self device_number (PinName name) (PStr ''oe'')
        = and_then (pin_get_id self device_number (Str name))
            (\<lambda>pinid self. checked (Jtagcore_get_pin_state device_number pinid 4) self)"
    by (simp add: pin_get_state_def OE_def)
  from a b c d e f g show ?thesis by blast
qed

theorem pin_get_state_direction_check_witness:
  "PStr ''outputEnable'' \<notin> {PStr ''input'', PStr ''output'', PStr ''oe''}
   \<and> pin_get_state \<lparr>lib = answering (\<lambda>c. returning 1), jtag = (), trace = []\<rparr> 1 (PinNum 9)
        (PStr ''outputEnable'')
      = (Inl (ValueError ''Invalid pintype'' (Some (PStr ''outputEnable''))),
         \<lparr>lib = answering (\<lambda>c. returning 1), jtag = (), trace = []\<rparr>)
   \<and> pin_get_state \<lparr>lib = answering (\<lambda>c. returning 1), jtag = (), trace = []\<rparr> 1 (PinNum 9)
        (PStr ''oe'')
      = (Inr 1, \<lparr>lib = answering (\<lambda>c. returning 1), jtag = (),
                 trace = [(Jtagcore_get_pin_state 1 9 4, returning 1)]\<rparr>)"
  using pin_get_state_direction_check [of "PStr ''outputEnable''"
      "\<lparr>lib = answering (\<lambda>c. returning 1), jtag = (), trace = []\<rparr>" 1 9]
  by (simp add: checked_def invoke_def answering_def returning_def check_return_def)

text \<open>
  Claim C6 as it is worded fails for a pin given by name: with a direction that is not
  recognised, the lookup of the name is issued to the library first, and when the name is
  unknown the error raised is that of the lookup.
\<close>

theorem pin_get_state_name_lookup_precedes_check:
  "pin_get_state \<lparr>lib = rejecting (-6), jtag = (), trace = []\<rparr> 1 (PinName ''PA9'') (PStr ''sideways'')
     = (Inl (IOError [''Exception: JTAG_CORE_NOT_FOUND'']),
        \<lparr>lib = rejecting (-6), jtag = (),
         trace = [(Jtagcore_get_pin_id 1 ''PA9'', returning (-6))]\<rparr>)"
  by (simp add: pin_get_state_def pin_get_id_def encode_utf8_def checked_def invoke_def
      rejecting_def returning_def check_return_values)

section \<open>Setting a pin\<close>

text \<open>
  The three classes of \<^verbatim>\<open>state\<close> that \<^verbatim>\<open>pin_set_state\<close> tells apart, and the branch each one
  takes.
\<close>

lemma high_states:
  "state \<in> {PBool True, PInt 1, PStr ''high''} \<Longrightarrow>
   (py_eq state (PBool True) \<or> py_eq state (PInt 1) \<or> py_eq state (PStr ''high'')) = True"
  by auto

lemma low_states:
  "state \<in> {PBool False, PInt 0, PStr ''low''} \<Longrightarrow>
   (py_eq state (PBool True) \<or> py_eq state (PInt 1) \<or> py_eq state (PStr ''high'')) = False
   \<and> (py_eq state (PBool False) \<or> py_eq state (PInt 0) \<or> py_eq state (PStr ''low'')) = True"
  by auto

lemma high_z_states:
  "state \<in> {PNone, PInt (-1), PStr ''high-z''} \<Longrightarrow>
   (py_eq state (PBool True) \<or> py_eq state (PInt 1) \<or> py_eq state (PStr ''high'')) = False
   \<and> (py_eq state (PBool False) \<or> py_eq state (PInt 0) \<or> py_eq state (PStr ''low'')) = False
   \<and> (py_eq state PNone \<or> py_eq state (PInt (-1)) \<or> py_eq state (PStr ''high-z'')) = True"
  by auto

lemma pin_set_state_num:
  assumes "state \<in> {PBool True, PInt 1, PStr ''high''} \<and> (oe::int) = 1 \<and> (out::int) = 1
         \<or> state \<in> {PBool False, PInt 0, PStr ''low''} \<and> oe = 1 \<and> out = 0
         \<or> state \<in> {PNone, PInt (-1), PStr ''high-z''} \<and> oe = 0 \<and> out = 0"
  shows "pin_set_state self device (PinNum n) state scan_now =
           and_then
             (and_then (checked (Jtagcore_set_pin_state device n OE oe) self)
                (\<lambda>rv self. checked (Jtagcore_set_pin_state device n OUTPUT out) self))
             (\<lambda>rv self. if scan_now then scan self False else (Inr (), self))"
proof -
  consider (high) "state \<in> {PBool True, PInt 1, PStr ''high''}" "oe = 1" "out = 1"
    | (low) "state \<in> {PBool False, PInt 0, PStr ''low''}" "oe = 1" "out = 0"
    | (high_z) "state \<in> {PNone, PInt (-1), PStr ''high-z''}" "oe = 0" "out = 0"
    using assms by blast
  then show ?thesis
  proof cases
    case high
    show ?thesis
      unfolding pin_set_state_def using high(2,3)
      by (simp only: high_states [OF high(1)] if_True pinref.case and_then_Inr)
  next
    case low
    show ?thesis
      unfolding pin_set_state_def using low(2,3)
      by (simp only: low_states [OF low(1)] if_True if_False pinref.case and_then_Inr)
  next
    case high_z
    show ?thesis
      unfolding pin_set_state_def using high_z(2,3)
      by (simp only: high_z_states [OF high_z(1)] if_True if_False pinref.case and_then_Inr)
  qed
qed

lemma pin_set_state_first_rejected:
  assumes "state \<in> {PBool True, PInt 1, PStr ''high''} \<and> (oe::int) = 1 \<and> (out::int) = 1
         \<or> state \<in> {PBool False, PInt 0, PStr ''low''} \<and> oe = 1 \<and> out = 0
         \<or> state \<in> {PNone, PInt (-1), PStr ''high-z''} \<and> oe = 0 \<and> out = 0"
    and "ret (reply_of (Jtagcore_set_pin_state device n OE oe) self) < 0"
  shows "\<exists>e. check_return (ret (reply_of (Jtagcore_set_pin_state device n OE oe) self)) = Inl e
           \<and> pin_set_state self device (PinNum n) state scan_now
               = (Inl e, after (Jtagcore_set_pin_state device n OE oe) self)"
  using checked_fails [OF assms(2)] by (auto simp add: pin_set_state_num [OF assms(1)])

lemma pin_set_state_second_rejected:
  assumes "state \<in> {PBool True, PInt 1, PStr ''high''} \<and> (oe::int) = 1 \<and> (out::int) = 1
         \<or> state \<in> {PBool False, PInt 0, PStr ''low''} \<and> oe = 1 \<and> out = 0
         \<or> state \<in> {PNone, PInt (-1), PStr ''high-z''} \<and> oe = 0 \<and> out = 0"
    and "0 \<le> ret (reply_of (Jtagcore_set_pin_state device n OE oe) self)"
    and "ret (reply_of (Jtagcore_set_pin_state device n OUTPUT out)
                (after (Jtagcore_set_pin_state device n OE oe) self)) < 0"
  shows "\<exists>e. check_return (ret (reply_of (Jtagcore_set_pin_state device n OUTPUT out)
                (after (Jtagcore_set_pin_state device n OE oe) self))) = Inl e
           \<and> pin_set_state self device (PinNum n) state scan_now
               = (Inl e, after (Jtagcore_set_pin_state device n OUTPUT out)
                           (after (Jtagcore_set_pin_state device n OE oe) self))"
  using checked_fails [OF assms(3)]
  by (auto simp add: pin_set_state_num [OF assms(1)] checked_ok [OF assms(2)])


lemma register_writes_simps [simp]:
  "register_writes [] = []"
  "register_writes ((Jtagcore_set_pin_state d p t v, r) # tr)
     = Jtagcore_set_pin_state d p t v # register_writes tr"
  "register_writes ((Jtagcore_push_and_pop_chain m, r) # tr) = register_writes tr"
  by (simp_all add: register_writes_def)




lemma pin_set_state_by_name:
  "pin_set_state self device (PinName name) state scan_now =
     and_then (pin_get_id self device (Str name))
       (\<lambda>n self. pin_set_state self device (PinNum n) state scan_now)"
  by (simp add: pin_set_state_def)


text \<open>
  Claim C4. Each of the two register writes of \<^verbatim>\<open>pin_set_state\<close> is checked before anything
  else is issued. When the first write fails, the method raises the error of its return value
  and the write is the only call made: the second write is never issued. When the first write
  is accepted and the second fails, the method raises the error of the second, the two writes
  are the only calls made (no call undoes the first, no scan follows), and the native state is
  the one the library left: that of the first write, passed through the failed second call.
\<close>

theorem pin_set_state_no_rollback:
  assumes "state \<in> {PBool True, PInt 1, PStr ''high''} \<and> (oe::int) = 1 \<and> (out::int) = 1
         \<or> state \<in> {PBool False, PInt 0, PStr ''low''} \<and> oe = 1 \<and> out = 0
         \<or> state \<in> {PNone, PInt (-1), PStr ''high-z''} \<and> oe = 0 \<and> out = 0"
  shows "(ret (reply_of (Jtagcore_set_pin_state device n OE oe) self) < 0 \<longrightarrow>
            (\<exists>e. check_return (ret (reply_of (Jtagcore_set_pin_state device n OE oe) self)) = Inl e
                \<and> pin_set_state self device (PinNum n) state scan_now
                    = (Inl e, after (Jtagcore_set_pin_state device n OE oe) self))
            \<and> new_calls self (after (Jtagcore_set_pin_state device n OE oe) self)
                = [(Jtagcore_set_pin_state device n OE oe,
                    reply_of (Jtagcore_set_pin_state device n OE oe) self)])
       \<and> (0 \<le> ret (reply_of (Jtagcore_set_pin_state device n OE oe) self)
          \<and> ret (reply_of (Jtagcore_set_pin_state device n OUTPUT out)
                   (after (Jtagcore_set_pin_state device n OE oe) self)) < 0 \<longrightarrow>
            (\<exists>e. check_return (ret (reply_of (Jtagcore_set_pin_state device n OUTPUT out)
                     (after (Jtagcore_set_pin_state device n OE oe) self))) = Inl e
                \<and> pin_set_state self device (PinNum n) state scan_now
                    = (Inl e, after (Jtagcore_set_pin_state device n OUTPUT out)
                                (after (Jtagcore_set_pin_state device n OE oe) self)))
            \<and> new_calls self (after (Jtagcore_set_pin_state device n OUTPUT out)
                                (after (Jtagcore_set_pin_state device n OE oe) self))
                = [(Jtagcore_set_pin_state device n OE oe,
                    reply_of (Jtagcore_set_pin_state device n OE oe) self),
                   (Jtagcore_set_pin_state device n OUTPUT out,
                    reply_of (Jtagcore_set_pin_state device n OUTPUT out)
                      (after (Jtagcore_set_pin_state device n OE oe) self))]
            \<and> jtag (after (Jtagcore_set_pin_state device n OUTPUT out)
                        (after (Jtagcore_set_pin_state device n OE oe) self))
                = snd (lib self (Jtagcore_set_pin_state device n OUTPUT out)
                        (snd (lib self (Jtagcore_set_pin_state device n OE oe) (jtag self)))))"
proof (intro conjI impI)
  assume "ret (reply_of (Jtagcore_set_pin_state device n OE oe) self) < 0"
  from pin_set_state_first_rejected [OF assms this, of scan_now]
  show "\<exists>e. check_return (ret (reply_of (Jtagcore_set_pin_state device n OE oe) self)) = Inl e
                \<and> pin_set_state self device (PinNum n) state scan_now
                    = (Inl e, after (Jtagcore_set_pin_state device n OE oe) self)"
    by blast
next
  assume a: "0 \<le> ret (reply_of (Jtagcore_set_pin_state device n OE oe) self)
          \<and> ret (reply_of (Jtagcore_set_pin_state device n OUTPUT out)
                   (after (Jtagcore_set_pin_state device n OE oe) self)) < 0"
  from pin_set_state_second_rejected [OF assms conjunct1 [OF a] conjunct2 [OF a], of scan_now]
  show "\<exists>e. check_return (ret (reply_of (Jtagcore_set_pin_state device n OUTPUT out)
                     (after (Jtagcore_set_pin_state device n OE oe) self))) = Inl e
                \<and> pin_set_state self device (PinNum n) state scan_now
                    = (Inl e, after (Jtagcore_set_pin_state device n OUTPUT out)
                                (after (Jtagcore_set_pin_state device n OE oe) self))"
    by blast
qed (simp_all add: new_calls_def jtag_after)

theorem pin_set_state_no_rollback_witness:
  "pin_set_state \<lparr>lib = rejecting (-1), jtag = (), trace = []\<rparr> 1 (PinNum 11) (PStr ''high'') True
     = (Inl (IOError [''Exception: JTAG_CORE_BAD_PARAMETER'']),
        \<lparr>lib = rejecting (-1), jtag = (),
         trace = [(Jtagcore_set_pin_state 1 11 OE 1, returning (-1))]\<rparr>)
   \<and> pin_set_state
       \<lparr>lib = register_file (\<lambda>c. c = Jtagcore_set_pin_state 1 11 OE 1), jtag = [], trace = []\<rparr>
       1 (PinNum 11) (PStr ''high'') True
     = (Inl (IOError [''Exception: JTAG_CORE_BAD_PARAMETER'']),
        \<lparr>lib = register_file (\<lambda>c. c = Jtagcore_set_pin_state 1 11 OE 1),
         jtag = [Jtagcore_set_pin_state 1 11 OE 1],
         trace = [(Jtagcore_set_pin_state 1 11 OE 1, returning 0),
                  (Jtagcore_set_pin_state 1 11 OUTPUT 1, returning (-1))]\<rparr>)"
  using pin_set_state_no_rollback [of "PStr ''high''" 1 1 1 11
          "\<lparr>lib = rejecting (-1), jtag = (), trace = []\<rparr>" True]
        pin_set_state_no_rollback [of "PStr ''high''" 1 1 1 11
          "\<lparr>lib = register_file (\<lambda>c. c = Jtagcore_set_pin_state 1 11 OE 1), jtag = [],
            trace = []\<rparr>" True]
  by (simp add: pin_set_state_def checked_def invoke_def rejecting_def register_file_def
      returning_def check_return_values OE_def OUTPUT_def)

section \<open>Return values of the library\<close>

text \<open>
  What \<^verbatim>\<open>_check_return\<close> does with a negative value: for the ten values of the table it raises
  the \<^verbatim>\<open>IOError\<close> that names the one error kind of the value, and distinct values have
  distinct names; for a value below the table it raises \<^verbatim>\<open>KeyError\<close>.
\<close>

lemma check_return_listed:
  assumes "- 10 \<le> rv" and "rv < 0"
  shows "\<exists>name. map_of error_codes rv = Some name
           \<and> check_return rv = Inl (IOError [''Exception: '' @ name])"
proof -
  from assms have "rv = -1 \<or> rv = -2 \<or> rv = -3 \<or> rv = -4 \<or> rv = -5 \<or> rv = -6 \<or> rv = -7
      \<or> rv = -8 \<or> rv = -9 \<or> rv = -10"
    by arith
  then show ?thesis
    by (auto simp add: check_return_def error_codes_def)
qed

lemma check_return_unlisted:
  assumes "rv < - 10"
  shows "check_return rv = Inl (KeyError rv)"
  using assms by (simp add: check_return_def error_codes_def)

lemma error_codes_distinct: "distinct (map fst error_codes) \<and> distinct (map snd error_codes)"
  by (simp add: error_codes_def)

text \<open>
  Claim C5 does not hold of the code in two places. A negative return value that the table
  \<^verbatim>\<open>error_codes\<close> does not list (here -11, and the negative number that a device id with
  bit 31 set is when read as a C int) makes \<^verbatim>\<open>_check_return\<close> raise the \<^verbatim>\<open>KeyError\<close> of the
  failed lookup, which names no error kind, in place of the \<^verbatim>\<open>IOError\<close>. And
  \<^verbatim>\<open>get_probe_names\<close> never passes the return value of \<^verbatim>\<open>jtagcore_get_probe_name\<close> to
  \<^verbatim>\<open>_check_return\<close>: when that call fails with \<^verbatim>\<open>JTAG_CORE_IO_ERROR\<close> (-3), the method
  returns normally, with the empty name it found in the buffer as a key.
\<close>

theorem check_return_misses_errors:
  "check_return (- 11) = Inl (KeyError (- 11))
   \<and> get_devid \<lparr>lib = answering (\<lambda>c. returning (- 1412628479)), jtag = (), trace = []\<rparr> 0
     = (Inl (KeyError (- 1412628479)),
        \<lparr>lib = answering (\<lambda>c. returning (- 1412628479)), jtag = (),
         trace = [(Jtagcore_get_dev_id 0, returning (- 1412628479))]\<rparr>)
   \<and> get_probe_names \<lparr>lib = answering (probe_registry [1] (\<lambda>probeid. returning (- 3))),
                       jtag = (), trace = []\<rparr>
     = (Inr [('''', 0)],
        \<lparr>lib = answering (probe_registry [1] (\<lambda>probeid. returning (- 3))), jtag = (),
         trace = [(Jtagcore_get_number_of_probes_drv, returning 1),
                  (Jtagcore_get_number_of_probes 0, returning 1),
                  (Jtagcore_get_probe_name 0, returning (- 3))]\<rparr>)"
  by (simp add: check_return_values check_return_ok check_return_unlisted get_devid_def
      get_probe_names_def checked_def invoke_def answering_def returning_def upto_rec1)

section \<open>Pin names and pin ids\<close>

lemma pin_index_known:
  "name \<in> pin_name ` set pins \<Longrightarrow>
   \<exists>i. pin_index name pins = Some i \<and> i < length pins \<and> pin_name (pins ! i) = name"
  by (induction pins) auto

lemma pin_index_Some:
  "pin_index name pins = Some i \<Longrightarrow> i < length pins \<and> pin_name (pins ! i) = name"
  by (induction pins arbitrary: i) (auto split: if_splits)

lemma engine_after_accessor:
  assumes "lib self = engine_lib other"
  shows "jtag (after (Jtagcore_get_pin_id d name) self) = jtag self"
    and "jtag (after (Jtagcore_get_pin_properties d p m) self) = jtag self"
    and "reply_of (Jtagcore_get_pin_id d name) self = engine_get_pin_id (jtag self) d name"
    and "reply_of (Jtagcore_get_pin_properties d p m) self = engine_get_pin_properties (jtag self) d p"
  using assms by (simp_all add: after_def reply_of_def engine_lib_def)

lemma pin_get_properties_ok:
  assumes "0 \<le> ret (reply_of (Jtagcore_get_pin_properties device_number n 500) self)"
  shows "\<exists>pintype. pin_get_properties self device_number (PinNum n)
           = (Inr (buf_value (reply_of (Jtagcore_get_pin_properties device_number n 500) self),
                   pintype),
              after (Jtagcore_get_pin_properties device_number n 500) self)"
  using assms by (simp add: pin_get_properties_def invoke_eq check_return_ok Let_def)

text \<open>
  Claim C7. With the descriptor store of the engine behind the handle, a descriptor attached
  to the device and a pin name the descriptor knows: \<^verbatim>\<open>pin_get_id\<close> of the name gives a pin
  id, \<^verbatim>\<open>pin_get_properties\<close> of that id gives a name, and \<^verbatim>\<open>pin_get_id\<close> of that name gives
  the same pin id again.
\<close>

theorem pin_name_round_trip:
  assumes "lib self = engine_lib other"
    and "descriptors (jtag self) device_number = Some pins"
    and "name \<in> pin_name ` set pins"
  shows "\<exists>pinid name' pintype self1 self2 self3.
           pin_get_id self device_number (Str name) = (Inr pinid, self1)
           \<and> pin_get_properties self1 device_number (PinNum pinid) = (Inr (name', pintype), self2)
           \<and> pin_get_id self2 device_number (Bytes name') = (Inr pinid, self3)"
proof -
  from pin_index_known [OF assms(3)] obtain i where
    i: "pin_index name pins = Some i" "i < length pins" "pin_name (pins ! i) = name"
    by blast
  let ?c1 = "Jtagcore_get_pin_id device_number name"
  let ?c2 = "Jtagcore_get_pin_properties device_number (int i) 500"
  let ?s1 = "after ?c1 self"
  let ?s2 = "after ?c2 ?s1"
  have l1: "lib ?s1 = engine_lib other" and l2: "lib ?s2 = engine_lib other"
    using assms(1) by simp_all
  have j1: "jtag ?s1 = jtag self"
    using engine_after_accessor(1) [OF assms(1)] by simp
  have j2: "jtag ?s2 = jtag self"
    using engine_after_accessor(2) [OF l1] j1 by simp
  have r1: "reply_of ?c1 self = returning (int i)"
    using engine_after_accessor(3) [OF assms(1)] assms(2) i(1)
    by (simp add: engine_get_pin_id_def)
  have r2: "reply_of ?c2 ?s1
              = \<lparr>ret = 0, buf_value = name, pt_value = capability (pins ! i)\<rparr>"
    using engine_after_accessor(4) [OF l1] assms(2) i(2,3) j1
    by (simp add: engine_get_pin_properties_def)
  have r3: "reply_of ?c1 ?s2 = returning (int i)"
    using engine_after_accessor(3) [OF l2] assms(2) i(1) j2
    by (simp add: engine_get_pin_id_def)
  have a: "pin_get_id self device_number (Str name) = (Inr (int i), ?s1)"
    using checked_ok [of ?c1 self] r1 by (simp add: pin_get_id_eq returning_def)
  have b: "\<exists>pintype. pin_get_properties ?s1 device_number (PinNum (int i))
             = (Inr (name, pintype), ?s2)"
    using pin_get_properties_ok [of device_number "int i" ?s1] by (simp add: r2)
  have c: "pin_get_id ?s2 device_number (Bytes name) = (Inr (int i), after ?c1 ?s2)"
    using checked_ok [of ?c1 ?s2] r3 by (simp add: pin_get_id_eq returning_def)
  from a b c show ?thesis by blast
qed


theorem pin_name_round_trip_witness:
  "''PA11'' \<in> pin_name ` set [\<lparr>pin_name = ''PA9'', capability = 3\<rparr>,
                                \<lparr>pin_name = ''PA11'', capability = 7\<rparr>]
   \<and> fst (pin_get_id
        \<lparr>lib = engine_lib (rejecting (-3)),
         jtag = \<lparr>session = Some 1,
                 descriptors = (\<lambda>d. if d = 1 then Some [\<lparr>pin_name = ''PA9'', capability = 3\<rparr>,
                                                          \<lparr>pin_name = ''PA11'', capability = 7\<rparr>]
                                      else None),
                 register_image = (\<lambda>k. False)\<rparr>,
         trace = []\<rparr> 1 (Str ''PA11'')) = Inr 1
   \<and> (\<exists>pinid name' pintype self1 self2 self3.
        pin_get_id
          \<lparr>lib = engine_lib (rejecting (-3)),
           jtag = \<lparr>session = Some 1,
                   descriptors = (\<lambda>d. if d = 1 then Some [\<lparr>pin_name = ''PA9'', capability = 3\<rparr>,
                                                            \<lparr>pin_name = ''PA11'', capability = 7\<rparr>]
                                        else None),
                   register_image = (\<lambda>k. False)\<rparr>,
           trace = []\<rparr> 1 (Str ''PA11'') = (Inr pinid, self1)
        \<and> pin_get_properties self1 1 (PinNum pinid) = (Inr (name', pintype), self2)
        \<and> pin_get_id self2 1 (Bytes name') = (Inr pinid, self3))"
  using pin_name_round_trip [of
      "\<lparr>lib = engine_lib (rejecting (-3)),
        jtag = \<lparr>session = Some 1,
                descriptors = (\<lambda>d. if d = 1 then Some [\<lparr>pin_name = ''PA9'', capability = 3\<rparr>,
                                                         \<lparr>pin_name = ''PA11'', capability = 7\<rparr>]
                                     else None),
                register_image = (\<lambda>k. False)\<rparr>,
        trace = []\<rparr>" "rejecting (-3)" 1
      "[\<lparr>pin_name = ''PA9'', capability = 3\<rparr>, \<lparr>pin_name = ''PA11'', capability = 7\<rparr>]"
      "''PA11''"]
  by (simp add: pin_get_id_eq checked_def invoke_def engine_lib_def
      engine_get_pin_id_def returning_def check_return_ok)

section \<open>Enumerating probes\<close>

lemma probe_entries_append:
  "probe_entries (xs @ ys) = probe_entries xs @ probe_entries ys"
  by (induction xs rule: probe_entries.induct) simp_all

lemma instance_counts_append:
  "instance_counts (xs @ ys) = instance_counts xs @ instance_counts ys"
  by (induction xs rule: instance_counts.induct) simp_all

lemma driver_counts_append:
  "driver_counts (xs @ ys) = driver_counts xs @ driver_counts ys"
  by (induction xs rule: driver_counts.induct) simp_all

lemma probe_index_loop_log:
  "probe_index_loop d indexes probes self = (probes', self') \<Longrightarrow>
   \<exists>new. trace self' = trace self @ new
      \<and> map snd (probe_entries new) = map (\<lambda>i. push_bit 8 d OR i) indexes
      \<and> instance_counts new = [] \<and> driver_counts new = []
      \<and> probes' = fold (\<lambda>(name, probeid). AList.update name probeid) (probe_entries new) probes"
proof (induction indexes arbitrary: probes self)
  case Nil
  then show ?case by simp
next
  case (Cons i indexes)
  let ?c = "Jtagcore_get_probe_name (push_bit 8 d OR i)"
  from Cons.prems have
    "probe_index_loop d indexes (AList.update (buf_value (reply_of ?c self)) (push_bit 8 d OR i) probes)
       (after ?c self) = (probes', self')"
    by (simp add: invoke_eq Let_def)
  from Cons.IH [OF this] obtain new where new:
    "trace self' = trace (after ?c self) @ new"
    "map snd (probe_entries new) = map (\<lambda>i. push_bit 8 d OR i) indexes"
    "instance_counts new = []" "driver_counts new = []"
    "probes' = fold (\<lambda>(name, probeid). AList.update name probeid) (probe_entries new)
                 (AList.update (buf_value (reply_of ?c self)) (push_bit 8 d OR i) probes)"
    by blast
  show ?case
  proof (intro exI conjI)
    show "trace self' = trace self @ ((?c, reply_of ?c self) # new)"
      using new(1) by simp
  qed (simp_all add: new)
qed

lemma probe_driver_loop_log:
  "probe_driver_loop drivers probes self = (Inr probes', self') \<Longrightarrow>
   \<exists>new. trace self' = trace self @ new
      \<and> map fst (instance_counts new) = drivers \<and> driver_counts new = []
      \<and> map snd (probe_entries new)
          = concat (map (\<lambda>(d, n). map (\<lambda>i. push_bit 8 d OR i) [0..n - 1]) (instance_counts new))
      \<and> probes' = fold (\<lambda>(name, probeid). AList.update name probeid) (probe_entries new) probes"
proof (induction drivers arbitrary: probes self)
  case Nil
  then show ?case by simp
next
  case (Cons d drivers)
  let ?c = "Jtagcore_get_number_of_probes d"
  let ?n = "ret (reply_of ?c self)"
  have ok: "0 \<le> ?n"
  proof (rule ccontr)
    assume "\<not> 0 \<le> ?n"
    then have "?n < 0" by simp
    from checked_fails [OF this] Cons.prems show False by auto
  qed
  obtain probes1 self1 where inner:
    "probe_index_loop d [0..?n - 1] probes (after ?c self) = (probes1, self1)"
    by (cases "probe_index_loop d [0..?n - 1] probes (after ?c self)") blast
  from Cons.prems have rest: "probe_driver_loop drivers probes1 self1 = (Inr probes', self')"
    by (simp add: checked_ok [OF ok] inner)
  from probe_index_loop_log [OF inner] obtain new1 where new1:
    "trace self1 = trace (after ?c self) @ new1"
    "map snd (probe_entries new1) = map (\<lambda>i. push_bit 8 d OR i) [0..?n - 1]"
    "instance_counts new1 = []" "driver_counts new1 = []"
    "probes1 = fold (\<lambda>(name, probeid). AList.update name probeid) (probe_entries new1) probes"
    by blast
  from Cons.IH [OF rest] obtain new2 where new2:
    "trace self' = trace self1 @ new2"
    "map fst (instance_counts new2) = drivers" "driver_counts new2 = []"
    "map snd (probe_entries new2)
       = concat (map (\<lambda>(d, n). map (\<lambda>i. push_bit 8 d OR i) [0..n - 1]) (instance_counts new2))"
    "probes' = fold (\<lambda>(name, probeid). AList.update name probeid) (probe_entries new2) probes1"
    by blast
  show ?case
  proof (intro exI conjI)
    show "trace self' = trace self @ ((?c, reply_of ?c self) # new1 @ new2)"
      using new1(1) new2(1) by simp
  qed (simp_all add: new1 new2 probe_entries_append instance_counts_append driver_counts_append)
qed

lemma get_probe_names_log:
  assumes "get_probe_names self = (Inr probes, self')"
  shows "\<exists>n. driver_counts (new_calls self self') = [n]
            \<and> map fst (instance_counts (new_calls self self')) = [0..n - 1]"
    and "map snd (probe_entries (new_calls self self'))
          = concat (map (\<lambda>(d, n). map (\<lambda>i. push_bit 8 d OR i) [0..n - 1])
                      (instance_counts (new_calls self self')))"
    and "probes = fold (\<lambda>(name, probeid). AList.update name probeid)
                    (probe_entries (new_calls self self')) []"
proof -
  let ?c = "Jtagcore_get_number_of_probes_drv"
  let ?n = "ret (reply_of ?c self)"
  have ok: "0 \<le> ?n"
  proof (rule ccontr)
    assume "\<not> 0 \<le> ?n"
    then have "?n < 0" by simp
    from checked_fails [OF this] assms show False by (auto simp add: get_probe_names_def)
  qed
  from assms have "probe_driver_loop [0..?n - 1] [] (after ?c self) = (Inr probes, self')"
    by (simp add: get_probe_names_def checked_ok [OF ok])
  from probe_driver_loop_log [OF this] obtain new where new:
    "trace self' = trace (after ?c self) @ new"
    "map fst (instance_counts new) = [0..?n - 1]" "driver_counts new = []"
    "map snd (probe_entries new)
       = concat (map (\<lambda>(d, n). map (\<lambda>i. push_bit 8 d OR i) [0..n - 1]) (instance_counts new))"
    "probes = fold (\<lambda>(name, probeid). AList.update name probeid) (probe_entries new) []"
    by blast
  have nc: "new_calls self self' = (?c, reply_of ?c self) # new"
    using new(1) by (simp add: new_calls_def)
  show "\<exists>n. driver_counts (new_calls self self') = [n]
            \<and> map fst (instance_counts (new_calls self self')) = [0..n - 1]"
    by (simp add: nc new)
  show "map snd (probe_entries (new_calls self self'))
          = concat (map (\<lambda>(d, n). map (\<lambda>i. push_bit 8 d OR i) [0..n - 1])
                      (instance_counts (new_calls self self')))"
    by (simp add: nc new)
  show "probes = fold (\<lambda>(name, probeid). AList.update name probeid)
                    (probe_entries (new_calls self self')) []"
    by (simp add: nc new)
qed


lemma set_update_subset: "set (AList.update k v al) \<subseteq> insert (k, v) (set al)"
  by (induction al) auto

lemma set_fold_update_subset:
  "set (fold (\<lambda>(name, probeid). AList.update name probeid) es al) \<subseteq> set es \<union> set al"
proof (induction es arbitrary: al)
  case Nil
  then show ?case by simp
next
  case (Cons e es)
  obtain k v where e: "e = (k, v)" by (cases e)
  have "set (fold (\<lambda>(name, probeid). AList.update name probeid) es (AList.update k v al))
          \<subseteq> set es \<union> set (AList.update k v al)"
    by (rule Cons.IH)
  then show ?case using set_update_subset [of k v al] by (auto simp add: e)
qed

lemma map_of_fold_update:
  "map_of (fold (\<lambda>(name, probeid). AList.update name probeid) es al)
     = map_of al ++ map_of (rev es)"
proof (induction es arbitrary: al)
  case Nil
  then show ?case by simp
next
  case (Cons e es)
  obtain k v where e: "e = (k, v)" by (cases e)
  show ?case
  proof (rule ext)
    fix x
    show "map_of (fold (\<lambda>(name, probeid). AList.update name probeid) (e # es) al) x
            = (map_of al ++ map_of (rev (e # es))) x"
      by (simp add: e Cons.IH AList.update_conv' map_add_def split: option.split)
  qed
qed

lemma distinct_fold_update:
  "distinct (map fst al) \<Longrightarrow>
   distinct (map fst (fold (\<lambda>(name, probeid). AList.update name probeid) es al))"
proof (induction es arbitrary: al)
  case Nil
  then show ?case by simp
next
  case (Cons e es)
  obtain k v where e: "e = (k, v)" by (cases e)
  show ?case using Cons.prems by (simp add: e Cons.IH AList.distinct_update)
qed

lemma keys_fold_update:
  "fst ` set (fold (\<lambda>(name, probeid). AList.update name probeid) es al)
     = fst ` set es \<union> fst ` set al"
proof (induction es arbitrary: al)
  case Nil
  then show ?case by simp
next
  case (Cons e es)
  obtain k v where e: "e = (k, v)" by (cases e)
  show ?case by (simp add: e Cons.IH AList.dom_update)
qed

lemma length_fold_update:
  "length (fold (\<lambda>(name, probeid). AList.update name probeid) es []) = card (fst ` set es)"
proof -
  let ?ps = "fold (\<lambda>(name, probeid). AList.update name probeid) es []"
  have "distinct (map fst ?ps)" by (rule distinct_fold_update) simp
  then have "length (map fst ?ps) = card (set (map fst ?ps))"
    by (simp only: distinct_card)
  then show ?thesis by (simp add: keys_fold_update)
qed

lemma card_keys_le: "card (fst ` set es) \<le> length es"
  using card_length [of "map fst es"] by simp

lemma card_keys_less: "\<not> distinct (map fst es) \<Longrightarrow> card (fst ` set es) < length es"
  using card_length [of "map fst es"] card_distinct [of "map fst es"] by fastforce

lemma map_of_rev_last:
  assumes "name \<notin> fst ` set later"
  shows "map_of (rev (before @ (name, probeid) # later)) name = Some probeid"
proof -
  from assms have "map_of (rev later) name = None"
    by (simp add: map_of_eq_None_iff)
  then show ?thesis by (simp add: map_add_def)
qed


text \<open>
  Claim C2. In a run of \<^verbatim>\<open>get_probe_names\<close> that returns, the library is asked once for the
  number \<open>n\<close> of drivers and then, for the driver indices 0 to \<open>n - 1\<close> in order, for the
  number of instances of each; the probe identifiers given to the instances, in the order of
  enumeration, are \<^verbatim>\<open>(d << 8) | i\<close> for each driver index \<open>d\<close> and each instance index \<open>i\<close>
  below the count of that driver; and every entry of the returned dictionary carries one of
  these identifiers with the name enumerated for it. One driver with two instances gives the
  identifiers 0 and 1.
\<close>

theorem probe_ids_composite:
  assumes "get_probe_names self = (Inr probes, self')"
  shows "(\<exists>n. driver_counts (new_calls self self') = [n]
            \<and> map fst (instance_counts (new_calls self self')) = [0..n - 1])
       \<and> map snd (probe_entries (new_calls self self'))
          = concat (map (\<lambda>(d, n). map (\<lambda>i. push_bit 8 d OR i) [0..n - 1])
                      (instance_counts (new_calls self self')))
       \<and> set probes \<subseteq> set (probe_entries (new_calls self self'))"
proof -
  have "set probes \<subseteq> set (probe_entries (new_calls self self'))"
    using set_fold_update_subset [of "probe_entries (new_calls self self')" "[]"]
    by (simp add: get_probe_names_log(3) [OF assms, symmetric])
  then show ?thesis
    using get_probe_names_log(1) [OF assms] get_probe_names_log(2) [OF assms] by blast
qed

theorem probe_ids_composite_witness:
  "get_probe_names
     \<lparr>lib = answering (probe_registry [2] (\<lambda>probeid. if probeid = 0 then named ''USB JLINK ARM''
                                                     else named ''FTDI'')),
      jtag = (), trace = []\<rparr>
   = (Inr [(''USB JLINK ARM'', 0), (''FTDI'', 1)],
      \<lparr>lib = answering (probe_registry [2] (\<lambda>probeid. if probeid = 0 then named ''USB JLINK ARM''
                                                      else named ''FTDI'')),
       jtag = (),
       trace = [(Jtagcore_get_number_of_probes_drv, returning 1),
                (Jtagcore_get_number_of_probes 0, returning 2),
                (Jtagcore_get_probe_name 0, named ''USB JLINK ARM''),
                (Jtagcore_get_probe_name 1, named ''FTDI'')]\<rparr>)
   \<and> map snd (probe_entries
        [(Jtagcore_get_number_of_probes_drv, returning 1),
         (Jtagcore_get_number_of_probes 0, returning 2),
         (Jtagcore_get_probe_name 0, named ''USB JLINK ARM''),
         (Jtagcore_get_probe_name 1, named ''FTDI'')]) = [0, 1]"
  using probe_ids_composite [of
     "\<lparr>lib = answering (probe_registry [2] (\<lambda>probeid. if probeid = 0 then named ''USB JLINK ARM''
                                                      else named ''FTDI'')),
       jtag = (), trace = []\<rparr>"
     "[(''USB JLINK ARM'', 0), (''FTDI'', 1)]"
     "\<lparr>lib = answering (probe_registry [2] (\<lambda>probeid. if probeid = 0 then named ''USB JLINK ARM''
                                                      else named ''FTDI'')),
       jtag = (),
       trace = [(Jtagcore_get_number_of_probes_drv, returning 1),
                (Jtagcore_get_number_of_probes 0, returning 2),
                (Jtagcore_get_probe_name 0, named ''USB JLINK ARM''),
                (Jtagcore_get_probe_name 1, named ''FTDI'')]\<rparr>"]
  by (simp add: check_return_ok get_probe_names_def checked_def invoke_def answering_def
      returning_def named_def upto_rec1)

text \<open>
  Claim C9. The dictionary that \<^verbatim>\<open>get_probe_names\<close> returns is keyed by probe name: its keys
  are distinct, and a name maps to the identifier of the last enumerated instance that
  reported it. So it never has more entries than probes were enumerated, and it has strictly
  fewer as soon as two enumerated instances report the same name.
\<close>

theorem probe_names_later_wins:
  assumes "get_probe_names self = (Inr probes, self')"
  shows "distinct (map fst probes)
       \<and> map_of probes = map_of (rev (probe_entries (new_calls self self')))
       \<and> (\<forall>before name probeid later.
             probe_entries (new_calls self self') = before @ (name, probeid) # later
             \<and> name \<notin> fst ` set later
             \<longrightarrow> map_of probes name = Some probeid)
       \<and> length probes \<le> length (probe_entries (new_calls self self'))
       \<and> (\<not> distinct (map fst (probe_entries (new_calls self self')))
            \<longrightarrow> length probes < length (probe_entries (new_calls self self')))"
proof -
  let ?es = "probe_entries (new_calls self self')"
  have p: "probes = fold (\<lambda>(name, probeid). AList.update name probeid) ?es []"
    by (rule get_probe_names_log(3) [OF assms])
  have a: "distinct (map fst probes)"
    unfolding p by (rule distinct_fold_update) simp
  have b: "map_of probes = map_of (rev ?es)"
    unfolding p by (simp add: map_of_fold_update)
  have c: "\<forall>before name probeid later.
             ?es = before @ (name, probeid) # later \<and> name \<notin> fst ` set later
             \<longrightarrow> map_of probes name = Some probeid"
  proof (intro allI impI)
    fix before name probeid later
    assume h: "?es = before @ (name, probeid) # later \<and> name \<notin> fst ` set later"
    have "map_of (rev (before @ (name, probeid) # later)) name = Some probeid"
      by (rule map_of_rev_last) (rule conjunct2 [OF h])
    then show "map_of probes name = Some probeid"
      by (simp only: b conjunct1 [OF h])
  qed
  have l: "length probes = card (fst ` set ?es)"
    using length_fold_update [of ?es] by (simp add: p [symmetric])
  have d: "length probes \<le> length ?es"
    using card_keys_le [of ?es] by (simp add: l)
  have e: "\<not> distinct (map fst ?es) \<longrightarrow> length probes < length ?es"
    using card_keys_less [of ?es] by (simp add: l)
  from a b c d e show ?thesis by blast
qed

theorem probe_names_later_wins_witness:
  "get_probe_names
     \<lparr>lib = answering (probe_registry [2] (\<lambda>probeid. named ''USB JLINK ARM'')),
      jtag = (), trace = []\<rparr>
   = (Inr [(''USB JLINK ARM'', 1)],
      \<lparr>lib = answering (probe_registry [2] (\<lambda>probeid. named ''USB JLINK ARM'')),
       jtag = (),
       trace = [(Jtagcore_get_number_of_probes_drv, returning 1),
                (Jtagcore_get_number_of_probes 0, returning 2),
                (Jtagcore_get_probe_name 0, named ''USB JLINK ARM''),
                (Jtagcore_get_probe_name 1, named ''USB JLINK ARM'')]\<rparr>)
   \<and> probe_entries
        [(Jtagcore_get_number_of_probes_drv, returning 1),
         (Jtagcore_get_number_of_probes 0, returning 2),
         (Jtagcore_get_probe_name 0, named ''USB JLINK ARM''),
         (Jtagcore_get_probe_name 1, named ''USB JLINK ARM'')]
       = [(''USB JLINK ARM'', 0), (''USB JLINK ARM'', 1)]
   \<and> length [(''USB JLINK ARM'', 1 :: int)]
       < length [(''USB JLINK ARM'', 0 :: int), (''USB JLINK ARM'', 1)]"
  using probe_names_later_wins [of
     "\<lparr>lib = answering (probe_registry [2] (\<lambda>probeid. named ''USB JLINK ARM'')),
       jtag = (), trace = []\<rparr>"
     "[(''USB JLINK ARM'', 1)]"
     "\<lparr>lib = answering (probe_registry [2] (\<lambda>probeid. named ''USB JLINK ARM'')),
       jtag = (),
       trace = [(Jtagcore_get_number_of_probes_drv, returning 1),
                (Jtagcore_get_number_of_probes 0, returning 2),
                (Jtagcore_get_probe_name 0, named ''USB JLINK ARM''),
                (Jtagcore_get_probe_name 1, named ''USB JLINK ARM'')]\<rparr>"]
  by (simp add: check_return_ok get_probe_names_def checked_def invoke_def answering_def
      returning_def named_def upto_rec1)

end
